theory Spec2Isabelle
  imports Main "HOL-Library.Sublist"
begin

section \<open>Edge Gate: middleware.ts\<close>

text \<open>
  The callback handed to \<open>auth(...)\<close> reads two things from the request: \<open>nextUrl\<close> and
  \<open>auth\<close>. A URL is kept as origin, path and query; the request also carries a method and
  headers, which the callback never reads. The exported \<open>config.matcher\<close> tells the framework
  for which paths to run the callback at all; what follows is the callback, that is, what
  the gate does with a request it is given.
\<close>

record url =
  origin :: string
  pathname :: string
  search :: string

text \<open>
  The \<open>User\<close> object of the auth library (every field optional), and the session object
  whose \<open>user\<close> field is optional too.
\<close>

record auth_user =
  au_id :: "string option"
  au_name :: "string option"
  au_email :: "string option"
  au_image :: "string option"

record session =
  session_user :: "auth_user option"
  expires :: string

record request =
  nextUrl :: url
  auth :: "session option"
  req_method :: string
  req_headers :: "(string \<times> string) list"

text \<open>
  The callback returns either nothing (the request goes on) or \<open>Response.redirect(u)\<close>.
\<close>

datatype gate_result = Next | Redirect url

text \<open>\<open>s.startsWith(p)\<close> of JavaScript.\<close>

definition startsWith :: "string \<Rightarrow> string \<Rightarrow> bool" where
  "startsWith s p = prefix p s"

text \<open>
  \<open>new URL(path, base)\<close> for an absolute path: the origin of the base, the given path, no
  query.
\<close>

definition URL_new :: "string \<Rightarrow> url \<Rightarrow> url" where
  "URL_new path base = \<lparr>origin = origin base, pathname = path, search = []\<rparr>"

definition isApiAuthRoute :: "request \<Rightarrow> bool" where
  "isApiAuthRoute req = startsWith (pathname (nextUrl req)) ''/api/auth''"

definition isPublicRoute :: "request \<Rightarrow> bool" where
  "isPublicRoute req = (pathname (nextUrl req) \<in> set [''/signin'', ''/signup''])"

definition isProtectedRoute :: "request \<Rightarrow> bool" where
  "isProtectedRoute req = startsWith (pathname (nextUrl req)) ''/dashboard''"

definition isLoggedIn :: "request \<Rightarrow> bool" where
  "isLoggedIn req = (auth req \<noteq> None)"

definition middleware :: "request \<Rightarrow> gate_result" where
  "middleware req =
     (if isApiAuthRoute req then Next
      else if isPublicRoute req then
        (if isLoggedIn req then Redirect (URL_new ''/dashboard'' (nextUrl req)) else Next)
      else if isProtectedRoute req \<and> \<not> isLoggedIn req then
        Redirect (URL_new ''/signin'' (nextUrl req))
      else Next)"

section \<open>Thrown values\<close>

text \<open>
  What a call can throw: an instance of \<open>AuthError\<close>, with its \<open>type\<close> field, or anything
  else, with a message. A call that can throw returns \<open>exn + 'a\<close>, \<open>Inl\<close> the thrown value.
\<close>

datatype exn = AuthError string | Error string

section \<open>Persistence collaborator: the User table\<close>

text \<open>A row of \<open>model User\<close> of the schema; every column but \<open>id\<close> is nullable.\<close>

record user =
  user_id :: string
  user_name :: "string option"
  user_email :: "string option"
  user_emailVerified :: "string option"
  user_image :: "string option"
  user_password :: "string option"

text \<open>The \<open>@unique\<close> constraint on \<open>email\<close>: no two distinct rows share a non-null email.\<close>

definition email_unique :: "user list \<Rightarrow> bool" where
  "email_unique rows =
     (\<forall>u \<in> set rows. \<forall>v \<in> set rows.
        user_email u \<noteq> None \<and> user_email u = user_email v \<longrightarrow> u = v)"

text \<open>
  A field of a parsed JSON body, as a handler passes it on unvalidated: missing
  (\<open>undefined\<close>), \<open>null\<close>, a string, or any other JSON value (a number, a boolean, an array,
  an object). Of another value only one thing matters below: what the store reads from it
  in a \<open>where\<close> clause, which is a filter on rows for an object such as \<open>{contains: ...}\<close> and
  nothing for the rest.
\<close>

datatype jval = Absent | JNull | JStr string | JOther "(user \<Rightarrow> bool) option"

text \<open>
  Modelled from the spec: the persistence collaborator is an external ORM client, so its
  three calls are modelled from the spec's section 2 and the schema. The table is the list
  of its rows. Each call takes the fault the environment injects into it (\<open>Some x\<close>: the
  call rejects with \<open>x\<close> and the table is untouched). \<open>findUnique\<close> refuses a missing
  email. In the \<open>where\<close> clause of \<open>findFirst\<close>, a missing email is no condition at all, \<open>null\<close>
  selects the rows without email, a string the rows with that email; a value the client
  cannot read as a filter is refused. \<open>create\<close> stores a missing or \<open>null\<close> field as a null
  column, refuses any other non-string, refuses an email that a row already has, and
  otherwise appends one row with the id the store generates.
\<close>

definition findUnique :: "exn option \<Rightarrow> user list \<Rightarrow> string option \<Rightarrow> exn + user option" where
  "findUnique fault rows email =
     (case fault of
        Some x \<Rightarrow> Inl x
      | None \<Rightarrow>
          (case email of
             None \<Rightarrow> Inl (Error ''PrismaClientValidationError'')
           | Some e \<Rightarrow> Inr (find (\<lambda>u. user_email u = Some e) rows)))"

definition email_where :: "jval \<Rightarrow> (user \<Rightarrow> bool) option" where
  "email_where v =
     (case v of
        Absent \<Rightarrow> Some (\<lambda>u. True)
      | JNull \<Rightarrow> Some (\<lambda>u. user_email u = None)
      | JStr e \<Rightarrow> Some (\<lambda>u. user_email u = Some e)
      | JOther f \<Rightarrow> f)"

definition findFirst :: "exn option \<Rightarrow> user list \<Rightarrow> jval \<Rightarrow> exn + user option" where
  "findFirst fault rows email =
     (case fault of
        Some x \<Rightarrow> Inl x
      | None \<Rightarrow>
          (case email_where email of
             None \<Rightarrow> Inl (Error ''PrismaClientValidationError'')
           | Some P \<Rightarrow> Inr (find P rows)))"

definition column_value :: "jval \<Rightarrow> string option option" where
  "column_value v =
     (case v of
        Absent \<Rightarrow> Some None
      | JNull \<Rightarrow> Some None
      | JStr s \<Rightarrow> Some (Some s)
      | JOther f \<Rightarrow> None)"

record create_data =
  data_name :: jval
  data_email :: jval
  data_password :: string

definition new_row :: "string \<Rightarrow> string option \<Rightarrow> string option \<Rightarrow> string \<Rightarrow> user" where
  "new_row new_id n e pw =
     \<lparr>user_id = new_id, user_name = n, user_email = e,
      user_emailVerified = None, user_image = None, user_password = Some pw\<rparr>"

definition create :: "exn option \<Rightarrow> string \<Rightarrow> user list \<Rightarrow> create_data \<Rightarrow> exn + user list" where
  "create fault new_id rows d =
     (case fault of
        Some x \<Rightarrow> Inl x
      | None \<Rightarrow>
          (case (column_value (data_name d), column_value (data_email d)) of
             (Some n, Some e) \<Rightarrow>
               if e \<noteq> None \<and> (\<exists>u \<in> set rows. user_email u = e) then Inl (Error ''P2002'')
               else Inr (rows @ [new_row new_id n e (data_password d)])
           | _ \<Rightarrow> Inl (Error ''PrismaClientValidationError'')))"

section \<open>Password hash collaborator\<close>

text \<open>
  Modelled from the spec: the hashing collaborator is an external one-way primitive. Given a
  plaintext and a cost factor, \<open>bcrypt.hash\<close> returns a new hash or throws; what it returns
  is never the plaintext it was given, and it throws when the data is not a string. A
  hasher is any function with these two properties, so the salt drawn for a call is part
  of the function.
\<close>

typedef hasher =
  "{f :: jval \<Rightarrow> nat \<Rightarrow> exn + string.
      \<forall>v cost. (\<forall>h. f v cost = Inr h \<longrightarrow> v \<noteq> JStr h) \<and>
               ((\<forall>s. v \<noteq> JStr s) \<longrightarrow> (\<exists>x. f v cost = Inl x))}"
  by (rule exI [of _ "\<lambda>v cost. Inl (Error [])"]) simp

setup_lifting type_definition_hasher

lift_definition bcrypt_hash :: "hasher \<Rightarrow> jval \<Rightarrow> nat \<Rightarrow> exn + string" is "\<lambda>f. f" .

section \<open>External behaviour during one invocation\<close>

text \<open>
  \<open>bcrypt.compare\<close> is a parameter: any function that returns a value or throws. The
  hasher, the store's faults and the id the store generates for a new row come with it.
\<close>

record collaborators =
  bcrypt_compare :: "string option \<Rightarrow> string \<Rightarrow> exn + bool"
  bcrypt_hasher :: hasher
  find_fault :: "exn option"
  create_fault :: "exn option"
  cuid :: string

section \<open>Credentials Authorizer: authorize in auth.ts\<close>

text \<open>
  The argument is \<open>null\<close>, \<open>undefined\<close> or an object whose two fields may be missing.
\<close>

datatype credentials = Null | Undefined | Credentials "string option" "string option"

text \<open>
  The body of the \<open>try\<close> block. Reading a field of \<open>undefined\<close> throws a \<open>TypeError\<close>;
  \<open>user && user.password\<close> is false for a missing row, a null password and the empty
  string.
\<close>

definition authorize_try :: "collaborators \<Rightarrow> user list \<Rightarrow> credentials \<Rightarrow> exn + user option" where
  "authorize_try c rows credentials =
     (case credentials of
        Null \<Rightarrow> Inl (Error ''TypeError'')
      | Undefined \<Rightarrow> Inl (Error ''TypeError'')
      | Credentials email password \<Rightarrow>
          (case findUnique (find_fault c) rows email of
             Inl x \<Rightarrow> Inl x
           | Inr None \<Rightarrow> Inr None
           | Inr (Some user) \<Rightarrow>
               (case user_password user of
                  None \<Rightarrow> Inr None
                | Some h \<Rightarrow>
                    if h = [] then Inr None
                    else
                      (case bcrypt_compare c password h of
                         Inl x \<Rightarrow> Inl x
                       | Inr isPasswordCorrect \<Rightarrow>
                           if isPasswordCorrect then Inr (Some user) else Inr None))))"

text \<open>
  \<open>authorize\<close>: the \<open>null\<close> test, then the \<open>try\<close> block, whose \<open>catch\<close> logs and returns
  \<open>null\<close>. The result type keeps a place for a propagated exception.
\<close>

definition authorize :: "collaborators \<Rightarrow> user list \<Rightarrow> credentials \<Rightarrow> exn + user option" where
  "authorize c rows credentials =
     (if credentials = Null then Inr None
      else
        (case authorize_try c rows credentials of
           Inl error \<Rightarrow> Inr None
         | Inr r \<Rightarrow> Inr r))"

section \<open>Token and session callbacks in auth.ts\<close>

record JWT =
  token_id :: "string option"
  token_sub :: "string option"
  token_name :: "string option"
  token_email :: "string option"
  token_picture :: "string option"

definition jwt :: "JWT \<Rightarrow> auth_user option \<Rightarrow> JWT" where
  "jwt token user =
     (case user of
        Some u \<Rightarrow> token\<lparr>token_id := au_id u\<rparr>
      | None \<Rightarrow> token)"

definition session :: "session \<Rightarrow> JWT \<Rightarrow> session" where
  "session s token =
     (case session_user s of
        Some su \<Rightarrow> s\<lparr>session_user := Some (su\<lparr>au_id := token_id token\<rparr>)\<rparr>
      | None \<Rightarrow> s)"

text \<open>A token after sign-in with \<open>user\<close> and then \<open>n\<close> refreshes, which carry no user.\<close>

fun refreshed :: "nat \<Rightarrow> JWT \<Rightarrow> JWT" where
  "refreshed 0 token = token"
| "refreshed (Suc n) token = refreshed n (jwt token None)"

text \<open>
  Modelled from the spec: a session read is the orchestrator's, an external library. With
  \<open>session: { strategy: "jwt" }\<close> it builds the session object from the token, with a user
  made of the token's name, email and picture and with the new expiry, and hands it to the
  \<open>session\<close> callback together with the token.
\<close>

definition session_read :: "string \<Rightarrow> JWT \<Rightarrow> session" where
  "session_read newExpires token =
     session
       \<lparr>session_user =
          Some \<lparr>au_id = None, au_name = token_name token, au_email = token_email token,
                au_image = token_picture token\<rparr>,
        expires = newExpires\<rparr>
       token"

section \<open>Registration endpoint: POST /api/auth/register\<close>

text \<open>
  The handler destructures \<open>name\<close>, \<open>email\<close> and \<open>password\<close> from whatever JSON the request
  carries and validates nothing, so each of the three is any field value. A JSON value
  without these properties (a number, a string, an array) reads as three missing fields.
\<close>

record register_body =
  body_name :: jval
  body_email :: jval
  body_password :: jval

text \<open>
  \<open>request.json()\<close> rejects, or yields JSON \<open>null\<close> (\<open>None\<close>, whose destructuring throws a
  \<open>TypeError\<close>), or yields a value read as above.
\<close>

record register_request =
  json :: "exn + register_body option"

text \<open>\<open>Response.json({success, message}, {status})\<close>.\<close>

record response =
  status :: nat
  success :: bool
  message :: string

text \<open>
  The body of the \<open>try\<close> block, with the table threaded through: the hash is computed
  before the lookup, and \<open>create\<close> is only reached when the lookup returned no row.
\<close>

definition POST_try :: "collaborators \<Rightarrow> user list \<Rightarrow> register_request \<Rightarrow> exn + response \<times> user list" where
  "POST_try c rows request =
     (case json request of
        Inl x \<Rightarrow> Inl x
      | Inr None \<Rightarrow> Inl (Error ''TypeError'')
      | Inr (Some body) \<Rightarrow>
          (case bcrypt_hash (bcrypt_hasher c) (body_password body) 10 of
             Inl x \<Rightarrow> Inl x
           | Inr hashPassword \<Rightarrow>
               (case findFirst (find_fault c) rows (body_email body) of
                  Inl x \<Rightarrow> Inl x
                | Inr (Some user) \<Rightarrow>
                    Inr (\<lparr>status = 401, success = False, message = ''Email already exists''\<rparr>, rows)
                | Inr None \<Rightarrow>
                    (case create (create_fault c) (cuid c) rows
                            \<lparr>data_name = body_name body, data_email = body_email body,
                             data_password = hashPassword\<rparr> of
                       Inl x \<Rightarrow> Inl x
                     | Inr rows' \<Rightarrow>
                         Inr (\<lparr>status = 200, success = True,
                               message = ''User created successfully''\<rparr>, rows')))))"

text \<open>\<open>POST\<close>: the \<open>catch\<close> answers 500; no call that threw has written to the table.\<close>

definition POST :: "collaborators \<Rightarrow> user list \<Rightarrow> register_request \<Rightarrow> response \<times> user list" where
  "POST c rows request =
     (case POST_try c rows request of
        Inl error \<Rightarrow> (\<lparr>status = 500, success = False, message = ''Something went wrong''\<rparr>, rows)
      | Inr r \<Rightarrow> r)"

section \<open>Server action: doCredentialLogin in authcontrol.ts\<close>

text \<open>
  \<open>data\<close> is a \<open>FormData\<close> (name and value pairs), a plain object with two fields that may
  be missing, or \<open>null\<close>/\<open>undefined\<close>, whose field read throws.
\<close>

datatype login_data =
  FormData "(string \<times> string) list"
| Object "string option" "string option"
| Nullish

record signIn_options =
  opt_email :: "string option"
  opt_password :: "string option"
  redirectTo :: string

record login_result =
  error :: string

definition login_fields :: "login_data \<Rightarrow> exn + string option \<times> string option" where
  "login_fields data =
     (case data of
        FormData fd \<Rightarrow> Inr (map_of fd ''email'', map_of fd ''password'')
      | Object email password \<Rightarrow> Inr (email, password)
      | Nullish \<Rightarrow> Inl (Error ''TypeError''))"

definition doCredentialLogin_try ::
  "(string \<Rightarrow> signIn_options \<Rightarrow> exn + unit) \<Rightarrow> login_data \<Rightarrow> exn + unit" where
  "doCredentialLogin_try signIn data =
     (case login_fields data of
        Inl x \<Rightarrow> Inl x
      | Inr (email, password) \<Rightarrow>
          signIn ''credentials''
            \<lparr>opt_email = email, opt_password = password, redirectTo = ''/dashboard''\<rparr>)"

text \<open>
  The \<open>catch\<close>: an \<open>AuthError\<close> becomes a result object by its \<open>type\<close>, anything else is
  thrown again. A sign-in that returns leaves the action returning \<open>undefined\<close>.
\<close>

definition doCredentialLogin ::
  "(string \<Rightarrow> signIn_options \<Rightarrow> exn + unit) \<Rightarrow> login_data \<Rightarrow> exn + login_result option" where
  "doCredentialLogin signIn data =
     (case doCredentialLogin_try signIn data of
        Inr u \<Rightarrow> Inr None
      | Inl (AuthError type) \<Rightarrow>
          if type = ''CredentialsSignin'' then Inr (Some \<lparr>error = ''Invalid credentials.''\<rparr>)
          else Inr (Some \<lparr>error = ''Something went wrong.''\<rparr>)
      | Inl (Error m) \<Rightarrow> Inl (Error m))"

section \<open>Example inputs\<close>

text \<open>
  Two requests for \<open>/signin\<close> with a session, which differ in origin, query, method, headers
  and the session itself; a request with a session below \<open>/signin\<close>; and a request without a
  session for a path that only starts with \<open>/dashboard\<close>.
\<close>

definition gate_req_a :: request where
  "gate_req_a =
     \<lparr>nextUrl = \<lparr>origin = ''https://app.example'', pathname = ''/signin'', search = ''?from=mail''\<rparr>,
      auth = Some \<lparr>session_user = None, expires = ''2030-01-01''\<rparr>,
      req_method = ''GET'', req_headers = [(''accept'', ''text/html'')]\<rparr>"

definition gate_req_b :: request where
  "gate_req_b =
     \<lparr>nextUrl = \<lparr>origin = ''http://localhost:3000'', pathname = ''/signin'', search = []\<rparr>,
      auth = Some \<lparr>session_user =
                     Some \<lparr>au_id = Some ''u1'', au_name = None, au_email = None, au_image = None\<rparr>,
                   expires = ''2031-06-30''\<rparr>,
      req_method = ''POST'', req_headers = []\<rparr>"

definition gate_req_below_signin :: request where
  "gate_req_below_signin =
     \<lparr>nextUrl = \<lparr>origin = ''https://app.example'', pathname = ''/signin/anything'', search = []\<rparr>,
      auth = Some \<lparr>session_user = None, expires = ''2030-01-01''\<rparr>,
      req_method = ''GET'', req_headers = []\<rparr>"

definition gate_req_dashboards :: request where
  "gate_req_dashboards =
     \<lparr>nextUrl = \<lparr>origin = ''https://app.example'', pathname = ''/dashboards'', search = []\<rparr>,
      auth = None, req_method = ''GET'', req_headers = []\<rparr>"

text \<open>
  A table of two rows, Alice with a stored hash and Bob without one (a social sign-in), and
  two environments: one where every call works, one where the store is unreachable. The
  example hash function keeps the cost out of the result and fails on no input; the example
  comparison throws when the password is missing, as the library does.
\<close>

definition alice :: user where
  "alice =
     \<lparr>user_id = ''ck00'', user_name = Some ''Alice'', user_email = Some ''alice@example.com'',
      user_emailVerified = None, user_image = None,
      user_password = Some ''$2b$10$terces''\<rparr>"

definition bob :: user where
  "bob =
     \<lparr>user_id = ''ck01'', user_name = Some ''Bob'', user_email = Some ''bob@example.com'',
      user_emailVerified = None, user_image = None, user_password = None\<rparr>"

definition demo_rows :: "user list" where
  "demo_rows = [alice, bob]"

definition demo_hash :: "jval \<Rightarrow> nat \<Rightarrow> exn + string" where
  "demo_hash v cost =
     (case v of
        JStr pw \<Rightarrow> Inr (''$2b$10$'' @ rev pw)
      | _ \<Rightarrow> Inl (Error ''data must be a string or Buffer''))"

lift_definition demo_hasher :: hasher is demo_hash
  by (auto simp: demo_hash_def split: jval.splits dest: arg_cong [where f = length])

definition demo_compare :: "string option \<Rightarrow> string \<Rightarrow> exn + bool" where
  "demo_compare p h =
     (case p of
        None \<Rightarrow> Inl (Error ''data and hash arguments required'')
      | Some pw \<Rightarrow> Inr (h = ''$2b$10$'' @ rev pw))"

definition demo_c :: collaborators where
  "demo_c =
     \<lparr>bcrypt_compare = demo_compare, bcrypt_hasher = demo_hasher, find_fault = None,
      create_fault = None, cuid = ''ck02''\<rparr>"

definition demo_c_down :: collaborators where
  "demo_c_down =
     \<lparr>bcrypt_compare = demo_compare, bcrypt_hasher = demo_hasher,
      find_fault = Some (Error ''P1001''), create_fault = Some (Error ''P1001''),
      cuid = ''ck02''\<rparr>"

text \<open>
  Registration requests: one that reuses Alice's email, one with a new email, one whose body
  has no email field, and the row the second one creates in the working environment.
\<close>

definition alice_again_body :: register_body where
  "alice_again_body =
     \<lparr>body_name = JStr ''Alice B'', body_email = JStr ''alice@example.com'',
      body_password = JStr ''hunter2''\<rparr>"

definition carol_body :: register_body where
  "carol_body =
     \<lparr>body_name = JStr ''Carol'', body_email = JStr ''carol@example.com'',
      body_password = JStr ''hunter2''\<rparr>"

definition no_email_body :: register_body where
  "no_email_body =
     \<lparr>body_name = JStr ''Dave'', body_email = Absent, body_password = JStr ''hunter2''\<rparr>"

definition reg_req_alice_again :: register_request where
  "reg_req_alice_again = \<lparr>json = Inr (Some alice_again_body)\<rparr>"

definition reg_req_carol :: register_request where
  "reg_req_carol = \<lparr>json = Inr (Some carol_body)\<rparr>"

definition reg_req_no_email :: register_request where
  "reg_req_no_email = \<lparr>json = Inr (Some no_email_body)\<rparr>"

definition carol_row :: user where
  "carol_row =
     \<lparr>user_id = ''ck02'', user_name = Some ''Carol'', user_email = Some ''carol@example.com'',
      user_emailVerified = None, user_image = None,
      user_password = Some ''$2b$10$2retnuh''\<rparr>"

text \<open>
  A token before sign-in, the user object of a sign-in, and a session object with a user.
\<close>

definition demo_token :: JWT where
  "demo_token =
     \<lparr>token_id = None, token_sub = Some ''ck00'', token_name = Some ''Alice'',
      token_email = Some ''alice@example.com'', token_picture = None\<rparr>"

definition demo_auth_user :: auth_user where
  "demo_auth_user =
     \<lparr>au_id = Some ''ck00'', au_name = Some ''Alice'', au_email = Some ''alice@example.com'',
      au_image = None\<rparr>"

definition demo_session :: session where
  "demo_session =
     \<lparr>session_user =
        Some \<lparr>au_id = None, au_name = Some ''Alice'', au_email = Some ''alice@example.com'',
              au_image = None\<rparr>,
      expires = ''2030-01-01''\<rparr>"

text \<open>
  A sign-in that never returns: it throws the framework's redirect for the right password,
  a \<open>CallbackRouteError\<close> when the email is missing, and \<open>CredentialsSignin\<close> otherwise.
\<close>

definition demo_signIn :: "string \<Rightarrow> signIn_options \<Rightarrow> exn + unit" where
  "demo_signIn provider options =
     (if opt_password options = Some ''secret'' then Inl (Error ''NEXT_REDIRECT'')
      else if opt_email options = None then Inl (AuthError ''CallbackRouteError'')
      else Inl (AuthError ''CredentialsSignin''))"

section \<open>Properties of the Edge Gate\<close>

text \<open>
  C3. The routing table of the gate, the auth-API test first: a path that starts with
  \<open>/api/auth\<close> goes through whatever the session; otherwise \<open>/signin\<close> and \<open>/signup\<close> redirect
  to \<open>/dashboard\<close> with a session and go through without one; otherwise a path that starts
  with \<open>/dashboard\<close> redirects to \<open>/signin\<close> without a session and goes through with one;
  every other path goes through. A redirect target is the named path on the origin of the
  request.
\<close>

theorem middleware_routing_table:
  "middleware req =
     (if prefix ''/api/auth'' (pathname (nextUrl req)) then Next
      else if pathname (nextUrl req) = ''/signin'' \<or> pathname (nextUrl req) = ''/signup'' then
        (if auth req \<noteq> None
         then Redirect \<lparr>origin = origin (nextUrl req), pathname = ''/dashboard'', search = []\<rparr>
         else Next)
      else if prefix ''/dashboard'' (pathname (nextUrl req)) then
        (if auth req = None
         then Redirect \<lparr>origin = origin (nextUrl req), pathname = ''/signin'', search = []\<rparr>
         else Next)
      else Next)"
  by (simp add: middleware_def isApiAuthRoute_def isPublicRoute_def isProtectedRoute_def
      isLoggedIn_def startsWith_def URL_new_def)

text \<open>
  C9, as stated: two requests that agree on the path and on session presence get the same
  action, a redirect to the same target included, whatever else differs. The two example
  requests for \<open>/signin\<close> agree on both and are both redirected, but to different URLs: the
  target is resolved on the origin of the request's own URL.
\<close>

theorem middleware_target_depends_on_origin:
  "pathname (nextUrl gate_req_a) = pathname (nextUrl gate_req_b)
   \<and> (auth gate_req_a = None) = (auth gate_req_b = None)
   \<and> middleware gate_req_a
       = Redirect \<lparr>origin = ''https://app.example'', pathname = ''/dashboard'', search = []\<rparr>
   \<and> middleware gate_req_b
       = Redirect \<lparr>origin = ''http://localhost:3000'', pathname = ''/dashboard'', search = []\<rparr>
   \<and> middleware gate_req_a \<noteq> middleware gate_req_b"
  by (simp add: gate_req_a_def gate_req_b_def middleware_def isApiAuthRoute_def
      isPublicRoute_def isLoggedIn_def startsWith_def URL_new_def)

text \<open>
  C9, amended. The gate is a function of the path, of whether a session is present, and of
  the origin of the request's URL. Two requests that agree on the path and on session
  presence either both go through, or are both redirected to the same path with no query,
  each on the origin of its own URL; when the origins agree too, the two results are equal.
  Nothing else in the request (query, method, headers, the content of the session) plays a
  part, and the callback takes the request alone, so no earlier request can.
\<close>

theorem middleware_path_session_origin:
  assumes "pathname (nextUrl r1) = pathname (nextUrl r2)"
    and "(auth r1 = None) = (auth r2 = None)"
  shows "((middleware r1 = Next \<and> middleware r2 = Next) \<or>
          (\<exists>p. middleware r1
                  = Redirect \<lparr>origin = origin (nextUrl r1), pathname = p, search = []\<rparr> \<and>
               middleware r2
                  = Redirect \<lparr>origin = origin (nextUrl r2), pathname = p, search = []\<rparr>))
         \<and> (origin (nextUrl r1) = origin (nextUrl r2) \<longrightarrow> middleware r1 = middleware r2)"
  using assms
  by (auto simp: middleware_def isApiAuthRoute_def isPublicRoute_def isProtectedRoute_def
      isLoggedIn_def startsWith_def URL_new_def)

theorem middleware_path_session_origin_witness:
  "pathname (nextUrl gate_req_a) = pathname (nextUrl gate_req_b)
   \<and> (auth gate_req_a = None) = (auth gate_req_b = None)
   \<and> middleware gate_req_a
       = Redirect \<lparr>origin = origin (nextUrl gate_req_a), pathname = ''/dashboard'', search = []\<rparr>
   \<and> middleware gate_req_b
       = Redirect \<lparr>origin = origin (nextUrl gate_req_b), pathname = ''/dashboard'', search = []\<rparr>
   \<and> search (nextUrl gate_req_a) \<noteq> search (nextUrl gate_req_b)
   \<and> req_method gate_req_a \<noteq> req_method gate_req_b"
proof -
  have p: "pathname (nextUrl gate_req_a) = pathname (nextUrl gate_req_b)"
    by (simp add: gate_req_a_def gate_req_b_def)
  have a: "(auth gate_req_a = None) = (auth gate_req_b = None)"
    by (simp add: gate_req_a_def gate_req_b_def)
  have m: "middleware gate_req_a
       = Redirect \<lparr>origin = origin (nextUrl gate_req_a), pathname = ''/dashboard'', search = []\<rparr>"
    by (simp add: gate_req_a_def middleware_def isApiAuthRoute_def isPublicRoute_def
        isLoggedIn_def startsWith_def URL_new_def)
  show ?thesis
    using p a m middleware_path_session_origin [OF p a]
    by (auto simp: gate_req_a_def gate_req_b_def)
qed

text \<open>
  C10. Public routes are matched by equality, protected routes by prefix. With a session, a
  path that properly extends \<open>/signin\<close> or \<open>/signup\<close> goes through and is not redirected to
  the dashboard. Without a session, every path that starts with \<open>/dashboard\<close>, such as
  \<open>/dashboard/settings\<close> or \<open>/dashboards\<close>, is redirected to \<open>/signin\<close>.
\<close>

theorem middleware_public_exact_protected_prefix:
  "(auth req \<noteq> None \<and>
      (strict_prefix ''/signin'' (pathname (nextUrl req)) \<or>
       strict_prefix ''/signup'' (pathname (nextUrl req)))
      \<longrightarrow> middleware req = Next)
   \<and> (auth req = None \<and> prefix ''/dashboard'' (pathname (nextUrl req))
      \<longrightarrow> middleware req = Redirect (URL_new ''/signin'' (nextUrl req)))"
  by (auto simp: middleware_def isApiAuthRoute_def isPublicRoute_def isProtectedRoute_def
      isLoggedIn_def startsWith_def strict_prefix_def prefix_def)

theorem middleware_public_exact_protected_prefix_witness:
  "auth gate_req_below_signin \<noteq> None
   \<and> strict_prefix ''/signin'' (pathname (nextUrl gate_req_below_signin))
   \<and> middleware gate_req_below_signin = Next
   \<and> auth gate_req_dashboards = None
   \<and> prefix ''/dashboard'' (pathname (nextUrl gate_req_dashboards))
   \<and> middleware gate_req_dashboards =
       Redirect \<lparr>origin = ''https://app.example'', pathname = ''/signin'', search = []\<rparr>"
  using middleware_public_exact_protected_prefix [of gate_req_below_signin]
    middleware_public_exact_protected_prefix [of gate_req_dashboards]
  by (simp add: gate_req_below_signin_def gate_req_dashboards_def strict_prefix_def URL_new_def)

section \<open>Properties of the Credentials Authorizer\<close>

lemma find_email_unique:
  assumes "email_unique rows" and "u \<in> set rows" and "user_email u = Some e"
  shows "find (\<lambda>v. user_email v = Some e) rows = Some u"
proof -
  from assms(2,3) have "find (\<lambda>v. user_email v = Some e) rows \<noteq> None"
    by (auto simp: find_None_iff)
  then obtain v where v: "find (\<lambda>v. user_email v = Some e) rows = Some v"
    by blast
  then have "v \<in> set rows" and "user_email v = Some e"
    by (auto simp: find_Some_iff)
  with assms have "u = v"
    unfolding email_unique_def by (metis option.distinct(1))
  with v show ?thesis by simp
qed

lemma find_no_email:
  "(find (\<lambda>v. user_email v = Some e) rows = None) = (\<forall>u \<in> set rows. user_email u \<noteq> Some e)"
  by (auto simp: find_None_iff)

lemma email_unique_demo_rows: "email_unique demo_rows"
  by (simp add: email_unique_def demo_rows_def alice_def bob_def)

text \<open>
  C1. Take a stored user whose email is the submitted one and whose password column holds a
  hash (a non-empty string: the code tests \<open>user.password\<close> for truth). \<open>authorize\<close> returns
  that row exactly when the comparison of the submitted password with the stored hash is
  reached and returns true; when it does not, the comparison returning false included,
  \<open>authorize\<close> returns \<open>null\<close>. The comparison is reached when the lookup did not throw.
\<close>

theorem authorize_user_iff_compare:
  assumes "email_unique rows" and "u \<in> set rows" and "user_email u = Some e"
    and "user_password u = Some h" and "h \<noteq> []"
  shows "(authorize c rows (Credentials (Some e) p) = Inr (Some u)
            \<longleftrightarrow> find_fault c = None \<and> bcrypt_compare c p h = Inr True)
         \<and> (\<not> (find_fault c = None \<and> bcrypt_compare c p h = Inr True)
            \<longrightarrow> authorize c rows (Credentials (Some e) p) = Inr None)"
  using find_email_unique [OF assms(1,2,3)] assms(4,5)
  by (auto simp: authorize_def authorize_try_def findUnique_def split: option.splits sum.splits)

theorem authorize_user_iff_compare_witness:
  "email_unique demo_rows \<and> alice \<in> set demo_rows
   \<and> user_email alice = Some ''alice@example.com''
   \<and> user_password alice = Some ''$2b$10$terces'' \<and> ''$2b$10$terces'' \<noteq> []
   \<and> bcrypt_compare demo_c (Some ''secret'') ''$2b$10$terces'' = Inr True
   \<and> authorize demo_c demo_rows (Credentials (Some ''alice@example.com'') (Some ''secret''))
       = Inr (Some alice)
   \<and> bcrypt_compare demo_c (Some ''guess'') ''$2b$10$terces'' = Inr False
   \<and> authorize demo_c demo_rows (Credentials (Some ''alice@example.com'') (Some ''guess''))
       = Inr None"
proof -
  have h: "alice \<in> set demo_rows" "user_email alice = Some ''alice@example.com''"
    "user_password alice = Some ''$2b$10$terces''" "''$2b$10$terces'' \<noteq> []"
    by (simp_all add: demo_rows_def alice_def)
  have ok: "find_fault demo_c = None"
    "bcrypt_compare demo_c (Some ''secret'') ''$2b$10$terces'' = Inr True"
    "bcrypt_compare demo_c (Some ''guess'') ''$2b$10$terces'' = Inr False"
    by (simp_all add: demo_c_def demo_compare_def)
  show ?thesis
    using email_unique_demo_rows h ok
      authorize_user_iff_compare [OF email_unique_demo_rows h, of demo_c "Some ''secret''"]
      authorize_user_iff_compare [OF email_unique_demo_rows h, of demo_c "Some ''guess''"]
    by simp
qed

text \<open>
  C2. \<open>authorize\<close> never propagates an exception: on every input it returns a value. It
  returns \<open>null\<close> for \<open>null\<close> credentials (and for \<open>undefined\<close> ones, whose field read throws
  inside the \<open>try\<close>), when no row has the submitted email, when the matched row has no
  stored hash (a null column or the empty string), when the lookup throws, and when the
  comparison throws.
\<close>

theorem authorize_total_fail_closed:
  "(\<exists>r. authorize c rows credentials = Inr r)
   \<and> authorize c rows Null = Inr None
   \<and> authorize c rows Undefined = Inr None
   \<and> ((\<forall>u \<in> set rows. user_email u \<noteq> Some e)
        \<longrightarrow> authorize c rows (Credentials (Some e) p) = Inr None)
   \<and> (email_unique rows \<and> u \<in> set rows \<and> user_email u = Some e \<and>
       (user_password u = None \<or> user_password u = Some [])
        \<longrightarrow> authorize c rows (Credentials (Some e) p) = Inr None)
   \<and> (find_fault c = Some x \<longrightarrow> authorize c rows credentials = Inr None)
   \<and> (email_unique rows \<and> u \<in> set rows \<and> user_email u = Some e \<and>
       user_password u = Some h \<and> bcrypt_compare c p h = Inl x
        \<longrightarrow> authorize c rows (Credentials (Some e) p) = Inr None)"
proof -
  have total: "\<exists>r. authorize c rows credentials = Inr r"
    by (simp add: authorize_def split: sum.splits)
  have absent: "authorize c rows Null = Inr None" "authorize c rows Undefined = Inr None"
    by (simp_all add: authorize_def authorize_try_def)
  have nomatch: "authorize c rows (Credentials (Some e) p) = Inr None"
    if "\<forall>u \<in> set rows. user_email u \<noteq> Some e"
    using that find_no_email [of e rows]
    by (simp add: authorize_def authorize_try_def findUnique_def split: option.splits)
  have nohash: "authorize c rows (Credentials (Some e) p) = Inr None"
    if "email_unique rows" "u \<in> set rows" "user_email u = Some e"
      "user_password u = None \<or> user_password u = Some []"
    using find_email_unique [OF that(1,2,3)] that(4)
    by (auto simp: authorize_def authorize_try_def findUnique_def split: option.splits)
  have lookup: "authorize c rows credentials = Inr None" if "find_fault c = Some x"
    using that
    by (cases credentials) (simp_all add: authorize_def authorize_try_def findUnique_def)
  have compare: "authorize c rows (Credentials (Some e) p) = Inr None"
    if "email_unique rows" "u \<in> set rows" "user_email u = Some e"
      "user_password u = Some h" "bcrypt_compare c p h = Inl x"
    using find_email_unique [OF that(1,2,3)] that(4,5)
    by (auto simp: authorize_def authorize_try_def findUnique_def split: option.splits)
  from total absent nomatch nohash lookup compare show ?thesis by blast
qed

theorem authorize_total_fail_closed_witness:
  "authorize demo_c demo_rows Null = Inr None
   \<and> Some ''carol@example.com'' \<notin> set (map user_email demo_rows)
   \<and> authorize demo_c demo_rows (Credentials (Some ''carol@example.com'') (Some ''secret''))
       = Inr None
   \<and> email_unique demo_rows \<and> bob \<in> set demo_rows
   \<and> user_email bob = Some ''bob@example.com'' \<and> user_password bob = None
   \<and> authorize demo_c demo_rows (Credentials (Some ''bob@example.com'') (Some ''secret''))
       = Inr None
   \<and> find_fault demo_c_down = Some (Error ''P1001'')
   \<and> authorize demo_c_down demo_rows
        (Credentials (Some ''alice@example.com'') (Some ''secret'')) = Inr None
   \<and> alice \<in> set demo_rows \<and> user_email alice = Some ''alice@example.com''
   \<and> user_password alice = Some ''$2b$10$terces''
   \<and> bcrypt_compare demo_c None ''$2b$10$terces''
       = Inl (Error ''data and hash arguments required'')
   \<and> authorize demo_c demo_rows (Credentials (Some ''alice@example.com'') None) = Inr None"
proof -
  have h: "\<forall>u \<in> set demo_rows. user_email u \<noteq> Some ''carol@example.com''"
    "bob \<in> set demo_rows" "user_email bob = Some ''bob@example.com''"
    "user_password bob = None"
    "find_fault demo_c_down = Some (Error ''P1001'')"
    "alice \<in> set demo_rows" "user_email alice = Some ''alice@example.com''"
    "user_password alice = Some ''$2b$10$terces''"
    "bcrypt_compare demo_c None ''$2b$10$terces''
       = Inl (Error ''data and hash arguments required'')"
    by (simp_all add: demo_rows_def alice_def bob_def demo_c_def demo_c_down_def
        demo_compare_def)
  have n: "Some ''carol@example.com'' \<notin> set (map user_email demo_rows)"
    by (simp add: demo_rows_def alice_def bob_def)
  show ?thesis
    using email_unique_demo_rows h n
      authorize_total_fail_closed [where c = demo_c and rows = demo_rows
        and e = "''carol@example.com''" and p = "Some ''secret''"]
      authorize_total_fail_closed [where c = demo_c and rows = demo_rows
        and e = "''bob@example.com''" and p = "Some ''secret''" and u = bob]
      authorize_total_fail_closed [where c = demo_c_down and rows = demo_rows
        and credentials = "Credentials (Some ''alice@example.com'') (Some ''secret'')"
        and x = "Error ''P1001''"]
      authorize_total_fail_closed [where c = demo_c and rows = demo_rows
        and e = "''alice@example.com''" and p = None and u = alice
        and h = "''$2b$10$terces''" and x = "Error ''data and hash arguments required''"]
    by simp
qed

section \<open>Properties of the registration endpoint\<close>

lemma find_SomeD_set: "find P xs = Some x \<Longrightarrow> x \<in> set xs \<and> P x"
  by (auto simp: find_Some_iff)


lemma bcrypt_hash_demo: "bcrypt_hash demo_hasher v cost = demo_hash v cost"
  by (simp add: bcrypt_hash.rep_eq demo_hasher.rep_eq)








lemma demo_facts:
  "json reg_req_alice_again = Inr (Some alice_again_body)"
  "json reg_req_carol = Inr (Some carol_body)"
  "json reg_req_no_email = Inr (Some no_email_body)"
  "body_email alice_again_body = JStr ''alice@example.com''"
  "body_email carol_body = JStr ''carol@example.com''"
  "body_email no_email_body = Absent"
  "bcrypt_hash (bcrypt_hasher demo_c) (body_password alice_again_body) 10
     = Inr ''$2b$10$2retnuh''"
  "bcrypt_hash (bcrypt_hasher demo_c) (body_password carol_body) 10 = Inr ''$2b$10$2retnuh''"
  "bcrypt_hash (bcrypt_hasher demo_c) (body_password no_email_body) 10
     = Inr ''$2b$10$2retnuh''"
  "bcrypt_hash (bcrypt_hasher demo_c_down) (body_password carol_body) 10
     = Inr ''$2b$10$2retnuh''"
  "find_fault demo_c = None" "create_fault demo_c = None"
  "find_fault demo_c_down = Some (Error ''P1001'')"
  "column_value (body_name carol_body) = Some (Some ''Carol'')"
  "column_value (body_email carol_body) = Some (Some ''carol@example.com'')"
  "new_row (cuid demo_c) (Some ''Carol'') (Some ''carol@example.com'') ''$2b$10$2retnuh''
     = carol_row"
  by (simp_all add: reg_req_alice_again_def reg_req_carol_def reg_req_no_email_def
      alice_again_body_def carol_body_def no_email_body_def demo_c_def demo_c_down_def
      bcrypt_hash_demo demo_hash_def column_value_def new_row_def carol_row_def)

lemma demo_rows_emails:
  "\<exists>u \<in> set demo_rows. user_email u = Some ''alice@example.com''"
  "\<forall>u \<in> set demo_rows. \<not> user_email u = Some ''carol@example.com''"
  "\<exists>u \<in> set demo_rows. True"
  by (auto simp: demo_rows_def alice_def bob_def)




text \<open>
  C5. A registration request whose email a stored row already has changes nothing: the
  table after the request is the table before it, so the existing row is as it was, and
  the answer is not 200. This holds whichever calls throw.
\<close>

theorem POST_duplicate_keeps_store:
  assumes "json request = Inr (Some body)" and "body_email body = JStr e"
    and "\<exists>u \<in> set rows. user_email u = Some e"
  shows "snd (POST c rows request) = rows \<and> status (fst (POST c rows request)) \<noteq> 200"
proof -
  have "find (\<lambda>u. user_email u = Some e) rows \<noteq> None"
    using assms(3) by (auto simp: find_None_iff)
  with assms(1,2) show ?thesis
    by (auto simp: POST_def POST_try_def findFirst_def email_where_def
        split: sum.splits option.splits)
qed

theorem POST_duplicate_keeps_store_witness:
  "json reg_req_alice_again = Inr (Some alice_again_body)
   \<and> body_email alice_again_body = JStr ''alice@example.com''
   \<and> Some ''alice@example.com'' \<in> set (map user_email demo_rows)
   \<and> snd (POST demo_c demo_rows reg_req_alice_again) = demo_rows
   \<and> status (fst (POST demo_c demo_rows reg_req_alice_again)) \<noteq> 200"
proof -
  have m: "Some ''alice@example.com'' \<in> set (map user_email demo_rows)"
    by (simp add: demo_rows_def alice_def bob_def)
  show ?thesis
    using demo_facts(1,4) m
      POST_duplicate_keeps_store [OF demo_facts(1,4) demo_rows_emails(1), of demo_c]
    by simp
qed




section \<open>Properties of the token and session callbacks\<close>

lemma jwt_no_user: "jwt token None = token"
  by (simp add: jwt_def)

lemma refreshed_same: "refreshed n token = token"
  by (induction n arbitrary: token) (simp_all add: jwt_no_user)

text \<open>
  C7. The \<open>jwt\<close> callback sets the token's id claim to the user's id when a user object is
  present, leaving the other claims alone, and returns the token unchanged when none is,
  so the claim persists over any number of refreshes. The \<open>session\<close> callback copies the
  token's id claim into the \<open>id\<close> of the session's user, and on every session read the
  session has one, so every read yields the token's id claim. Hence after a sign-in with
  user \<open>u\<close> and any number of refreshes, every session read yields the id of \<open>u\<close>. (Expiry of
  the token is the library's business and is not part of these callbacks.)
\<close>

theorem callbacks_preserve_id:
  "jwt token None = token
   \<and> jwt token (Some u) = token\<lparr>token_id := au_id u\<rparr>
   \<and> refreshed n token = token
   \<and> (session_user s = Some su \<longrightarrow>
        session s token = s\<lparr>session_user := Some (su\<lparr>au_id := token_id token\<rparr>)\<rparr>)
   \<and> session_user (session_read e token)
       = Some \<lparr>au_id = token_id token, au_name = token_name token,
               au_email = token_email token, au_image = token_picture token\<rparr>
   \<and> session_user (session_read e (refreshed n (jwt token (Some u))))
       = Some \<lparr>au_id = au_id u, au_name = token_name token,
               au_email = token_email token, au_image = token_picture token\<rparr>"
  by (simp add: jwt_def session_def session_read_def refreshed_same)

theorem callbacks_preserve_id_witness:
  "session_user demo_session
     = Some \<lparr>au_id = None, au_name = Some ''Alice'', au_email = Some ''alice@example.com'',
             au_image = None\<rparr>
   \<and> token_id (jwt demo_token (Some demo_auth_user)) = Some ''ck00''
   \<and> session_user (session demo_session (jwt demo_token (Some demo_auth_user)))
       = Some \<lparr>au_id = Some ''ck00'', au_name = Some ''Alice'',
               au_email = Some ''alice@example.com'', au_image = None\<rparr>
   \<and> session_user (session_read ''2030-01-01''
        (refreshed 3 (jwt demo_token (Some demo_auth_user))))
       = Some \<lparr>au_id = Some ''ck00'', au_name = Some ''Alice'',
               au_email = Some ''alice@example.com'', au_image = None\<rparr>"
proof -
  have s: "session_user demo_session
     = Some \<lparr>au_id = None, au_name = Some ''Alice'', au_email = Some ''alice@example.com'',
             au_image = None\<rparr>"
    by (simp add: demo_session_def)
  have i: "au_id demo_auth_user = Some ''ck00''"
    by (simp add: demo_auth_user_def)
  have t: "token_name demo_token = Some ''Alice''"
    "token_email demo_token = Some ''alice@example.com''" "token_picture demo_token = None"
    by (simp_all add: demo_token_def)
  show ?thesis
    using s i t
      callbacks_preserve_id [where s = demo_session
        and token = "jwt demo_token (Some demo_auth_user)" and u = demo_auth_user
        and su = "\<lparr>au_id = None, au_name = Some ''Alice'',
                    au_email = Some ''alice@example.com'', au_image = None\<rparr>"]
      callbacks_preserve_id [where token = demo_token and n = 3 and u = demo_auth_user
        and e = "''2030-01-01''"]
    by simp
qed

section \<open>Properties of the credential-login action\<close>

text \<open>
  C8. When the sign-in that \<open>doCredentialLogin\<close> calls throws an \<open>AuthError\<close> of type
  \<open>CredentialsSignin\<close>, the action returns \<open>{error: "Invalid credentials."}\<close>; when it
  throws an \<open>AuthError\<close> of any other type, the action returns
  \<open>{error: "Something went wrong."}\<close>; when it throws anything else, the action throws the
  same value again. The sign-in is called with the provider \<open>credentials\<close>, the two fields read
  from the data and the redirect target \<open>/dashboard\<close>.
\<close>

theorem doCredentialLogin_error_mapping:
  assumes "login_fields data = Inr (email, password)"
  shows
    "(signIn ''credentials''
         \<lparr>opt_email = email, opt_password = password, redirectTo = ''/dashboard''\<rparr>
        = Inl (AuthError ''CredentialsSignin'')
      \<longrightarrow> doCredentialLogin signIn data = Inr (Some \<lparr>error = ''Invalid credentials.''\<rparr>))
     \<and> (type \<noteq> ''CredentialsSignin'' \<and>
        signIn ''credentials''
          \<lparr>opt_email = email, opt_password = password, redirectTo = ''/dashboard''\<rparr>
        = Inl (AuthError type)
      \<longrightarrow> doCredentialLogin signIn data = Inr (Some \<lparr>error = ''Something went wrong.''\<rparr>))
     \<and> (signIn ''credentials''
          \<lparr>opt_email = email, opt_password = password, redirectTo = ''/dashboard''\<rparr>
        = Inl (Error m)
      \<longrightarrow> doCredentialLogin signIn data = Inl (Error m))"
  using assms by (simp add: doCredentialLogin_def doCredentialLogin_try_def)

theorem doCredentialLogin_error_mapping_witness:
  "login_fields (Object (Some ''alice@example.com'') (Some ''guess''))
     = Inr (Some ''alice@example.com'', Some ''guess'')
   \<and> doCredentialLogin demo_signIn (Object (Some ''alice@example.com'') (Some ''guess''))
       = Inr (Some \<lparr>error = ''Invalid credentials.''\<rparr>)
   \<and> login_fields (FormData [(''password'', ''guess'')]) = Inr (None, Some ''guess'')
   \<and> doCredentialLogin demo_signIn (FormData [(''password'', ''guess'')])
       = Inr (Some \<lparr>error = ''Something went wrong.''\<rparr>)
   \<and> login_fields (FormData [(''email'', ''alice@example.com''), (''password'', ''secret'')])
       = Inr (Some ''alice@example.com'', Some ''secret'')
   \<and> doCredentialLogin demo_signIn
        (FormData [(''email'', ''alice@example.com''), (''password'', ''secret'')])
       = Inl (Error ''NEXT_REDIRECT'')"
proof -
  have f: "login_fields (Object (Some ''alice@example.com'') (Some ''guess''))
             = Inr (Some ''alice@example.com'', Some ''guess'')"
    "login_fields (FormData [(''password'', ''guess'')]) = Inr (None, Some ''guess'')"
    "login_fields (FormData [(''email'', ''alice@example.com''), (''password'', ''secret'')])
       = Inr (Some ''alice@example.com'', Some ''secret'')"
    by (simp_all add: login_fields_def)
  show ?thesis
    using f
      doCredentialLogin_error_mapping [OF f(1), of demo_signIn]
      doCredentialLogin_error_mapping [OF f(2), of demo_signIn "''CallbackRouteError''"]
      doCredentialLogin_error_mapping [OF f(3), of demo_signIn _ "''NEXT_REDIRECT''"]
    by (simp add: demo_signIn_def)
qed

end
